theory Spec2Isabelle
  imports Main "HOL-Library.Sublist"
begin

section \<open>The node controller of \<^verbatim>\<open>main.go\<close>\<close>

text \<open>
  The program is one Go file. It builds a shared informer for cluster nodes, registers three
  event handlers that log the resource version of the node they are given, starts the
  informer, waits for its cache to sync and then blocks until a signal closes the stop
  channel. The informer, its cache and \<^verbatim>\<open>cache.WaitForCacheSync\<close> belong to the
  \<^verbatim>\<open>client-go\<close> library and are not part of the program: the answers the program
  gets from them enter the model as parameters, and the calls the program makes on the
  informer are recorded in order.
\<close>

subsection \<open>Values the handlers receive\<close>

text \<open>The two fields of \<^verbatim>\<open>corev1.Node\<close> (through its object metadata) that matter here.\<close>

record Node =
  Name :: string
  ResourceVersion :: string

text \<open>
  A handler receives an \<^verbatim>\<open>interface{}\<close>. Its dynamic value is the nil interface, a
  \<^verbatim>\<open>*corev1.Node\<close> (a pointer, which may itself be nil), the tombstone
  \<^verbatim>\<open>cache.DeletedFinalStateUnknown{Key, Obj}\<close> or a value of some other type (named
  by its type).
\<close>

datatype obj =
    NilObj
  | NodePtr "Node option"
  | DeletedFinalStateUnknown string obj
  | OtherObj string

datatype panic = InterfaceConversion | NilDereference

text \<open>The type assertion \<^verbatim>\<open>obj.(*corev1.Node)\<close> in its one-result form: it panics on
  every dynamic type but \<^verbatim>\<open>*corev1.Node\<close>.\<close>

fun assert_Node :: "obj \<Rightarrow> panic + Node option" where
  "assert_Node (NodePtr p) = Inr p"
| "assert_Node NilObj = Inl InterfaceConversion"
| "assert_Node (DeletedFinalStateUnknown k ob) = Inl InterfaceConversion"
| "assert_Node (OtherObj ty) = Inl InterfaceConversion"

text \<open>Reading a field through the pointer: \<^verbatim>\<open>node.ResourceVersion\<close>.\<close>

fun deref_Node :: "Node option \<Rightarrow> panic + Node" where
  "deref_Node None = Inl NilDereference"
| "deref_Node (Some n) = Inr n"

fun is_NodePtr :: "obj \<Rightarrow> bool" where
  "is_NodePtr (NodePtr p) = True"
| "is_NodePtr NilObj = False"
| "is_NodePtr (DeletedFinalStateUnknown k ob) = False"
| "is_NodePtr (OtherObj ty) = False"

subsection \<open>Time, the log and the stop channel\<close>

text \<open>
  The state the program acts on: a clock of ticks, which only the blocking operations move,
  and the messages passed to \<^verbatim>\<open>klog\<close>, oldest first (the message alone, without the
  header \<^verbatim>\<open>klog\<close> puts before it).
\<close>

record world =
  now :: nat
  klog_out :: "string list"

text \<open>The verb \<^verbatim>\<open>%s\<close> of \<^verbatim>\<open>fmt\<close> on string arguments; the program uses no other
  verb.\<close>

fun Sprintf :: "string \<Rightarrow> string list \<Rightarrow> string" where
  "Sprintf [] args = []"
| "Sprintf (c # d # fmt) (a # args) =
     (if c = CHR ''%'' \<and> d = CHR ''s'' then a @ Sprintf fmt args
      else c # Sprintf (d # fmt) (a # args))"
| "Sprintf (c # fmt) args = c # Sprintf fmt args"

definition klog_Info :: "string \<Rightarrow> world \<Rightarrow> world" where
  "klog_Info msg w = w\<lparr>klog_out := klog_out w @ [msg]\<rparr>"

definition klog_Infof :: "string \<Rightarrow> string list \<Rightarrow> world \<Rightarrow> world" where
  "klog_Infof fmt args w = klog_Info (Sprintf fmt args) w"

text \<open>
  \<^verbatim>\<open>stopCh\<close> is a \<^verbatim>\<open>chan struct{}\<close> on which the program never sends: it is
  only closed, by the goroutine that waits for the signal. The channel is the tick at which
  it is closed, \<open>None\<close> when it never is.
\<close>

type_synonym chan = "nat option"

text \<open>The receive \<^verbatim>\<open><-stopCh\<close> blocks until the channel is closed; on a channel that
  is never closed it does not return.\<close>

definition chan_recv :: "chan \<Rightarrow> world \<Rightarrow> world option" where
  "chan_recv ch w = (case ch of None \<Rightarrow> None | Some cl \<Rightarrow> Some (w\<lparr>now := max (now w) cl\<rparr>))"

subsection \<open>The three handlers of \<^verbatim>\<open>newController\<close>\<close>

text \<open>The tab of the update handler's format string.\<close>

definition tab :: char where
  "tab = CHR 0x09"

definition newController_AddFunc :: "obj \<Rightarrow> world \<Rightarrow> panic + world" where
  "newController_AddFunc ob w =
     (case assert_Node ob of
        Inl p \<Rightarrow> Inl p
      | Inr node \<Rightarrow>
          (case deref_Node node of
             Inl p \<Rightarrow> Inl p
           | Inr n \<Rightarrow> Inr (klog_Infof ''[node added] resource version: %s'' [ResourceVersion n] w)))"

definition newController_UpdateFunc :: "obj \<Rightarrow> obj \<Rightarrow> world \<Rightarrow> panic + world" where
  "newController_UpdateFunc old new w =
     (case assert_Node old of
        Inl p \<Rightarrow> Inl p
      | Inr oldNode \<Rightarrow>
          (case assert_Node new of
             Inl p \<Rightarrow> Inl p
           | Inr newNode \<Rightarrow>
               (case deref_Node oldNode of
                  Inl p \<Rightarrow> Inl p
                | Inr n1 \<Rightarrow>
                    (case deref_Node newNode of
                       Inl p \<Rightarrow> Inl p
                     | Inr n2 \<Rightarrow>
                         Inr (klog_Infof
                               (''[node updated] old resource version: %s'' @ [tab]
                                  @ ''new resource version: %s'')
                               [ResourceVersion n1, ResourceVersion n2] w)))))"

definition newController_DeleteFunc :: "obj \<Rightarrow> world \<Rightarrow> panic + world" where
  "newController_DeleteFunc ob w =
     (case assert_Node ob of
        Inl p \<Rightarrow> Inl p
      | Inr node \<Rightarrow>
          (case deref_Node node of
             Inl p \<Rightarrow> Inl p
           | Inr n \<Rightarrow> Inr (klog_Infof ''[node deleted] resource version: %s'' [ResourceVersion n] w)))"

subsection \<open>The informer, as the program calls it\<close>

text \<open>\<^verbatim>\<open>cache.ResourceEventHandlerFuncs\<close>: three optional callbacks.\<close>

record ResourceEventHandlerFuncs =
  AddFunc :: "(obj \<Rightarrow> world \<Rightarrow> panic + world) option"
  UpdateFunc :: "(obj \<Rightarrow> obj \<Rightarrow> world \<Rightarrow> panic + world) option"
  DeleteFunc :: "(obj \<Rightarrow> world \<Rightarrow> panic + world) option"

text \<open>
  The informer is a library object. The model keeps the calls the program makes on it, in
  the order it makes them, and the answer of its \<^verbatim>\<open>HasSynced\<close> at each tick, which
  the cluster decides.
\<close>

datatype informer_call = AddEventHandler ResourceEventHandlerFuncs | Start chan

record NodeInformer =
  calls :: "informer_call list"
  HasSynced :: "nat \<Rightarrow> bool"

datatype NodeLister = Lister

record controller =
  nodes :: NodeLister
  nodesSynced :: "nat \<Rightarrow> bool"

fun handlers_of :: "informer_call list \<Rightarrow> ResourceEventHandlerFuncs list" where
  "handlers_of [] = []"
| "handlers_of (AddEventHandler h # cs) = h # handlers_of cs"
| "handlers_of (Start ch # cs) = handlers_of cs"

fun started :: "informer_call list \<Rightarrow> bool" where
  "started [] = False"
| "started (AddEventHandler h # cs) = started cs"
| "started (Start ch # cs) = True"

text \<open>The handlers registered before the first \<^verbatim>\<open>Start\<close>.\<close>

fun before_Start :: "informer_call list \<Rightarrow> ResourceEventHandlerFuncs list" where
  "before_Start [] = []"
| "before_Start (AddEventHandler h # cs) = h # before_Start cs"
| "before_Start (Start ch # cs) = []"

text \<open>
  Modelled from the spec: the dispatch of the informer, which is code of
  \<^verbatim>\<open>client-go\<close>. An event is one of the three notifications; a started informer hands
  it to every registered handler in registration order, one after the other, each handler
  calling its callback for the kind of the event when it has one.
\<close>

datatype event = Added obj | Updated obj obj | Deleted obj

fun OnEvent :: "ResourceEventHandlerFuncs \<Rightarrow> event \<Rightarrow> world \<Rightarrow> panic + world" where
  "OnEvent h (Added ob) w = (case AddFunc h of None \<Rightarrow> Inr w | Some f \<Rightarrow> f ob w)"
| "OnEvent h (Updated old new) w = (case UpdateFunc h of None \<Rightarrow> Inr w | Some f \<Rightarrow> f old new w)"
| "OnEvent h (Deleted ob) w = (case DeleteFunc h of None \<Rightarrow> Inr w | Some f \<Rightarrow> f ob w)"

fun dispatch_to :: "ResourceEventHandlerFuncs list \<Rightarrow> event \<Rightarrow> world \<Rightarrow> panic + world" where
  "dispatch_to [] ev w = Inr w"
| "dispatch_to (h # hs) ev w =
     (case OnEvent h ev w of Inl p \<Rightarrow> Inl p | Inr w' \<Rightarrow> dispatch_to hs ev w')"

definition dispatch :: "NodeInformer \<Rightarrow> event \<Rightarrow> world \<Rightarrow> panic + world" where
  "dispatch nodes_inf ev w =
     (if started (calls nodes_inf) then dispatch_to (handlers_of (calls nodes_inf)) ev w
      else Inr w)"

subsection \<open>\<^verbatim>\<open>newController\<close> and \<^verbatim>\<open>Run\<close>\<close>

definition newController_handlers :: ResourceEventHandlerFuncs where
  "newController_handlers =
     \<lparr>AddFunc = Some newController_AddFunc,
      UpdateFunc = Some newController_UpdateFunc,
      DeleteFunc = Some newController_DeleteFunc\<rparr>"

text \<open>Lines 29 to 52: the controller, and the informer after the registration.\<close>

definition newController :: "NodeInformer \<Rightarrow> controller \<times> NodeInformer" where
  "newController nodes_inf =
     (let c = \<lparr>nodes = Lister, nodesSynced = HasSynced nodes_inf\<rparr>;
          nodes_inf' = nodes_inf\<lparr>calls := calls nodes_inf @ [AddEventHandler newController_handlers]\<rparr>
      in (c, nodes_inf'))"

text \<open>A Go error value, by its message.\<close>

datatype error = Error string

fun message :: "error \<Rightarrow> string" where
  "message (Error m) = m"

text \<open>
  What the program takes from outside. \<^verbatim>\<open>WaitForCacheSync\<close> is given the stop channel,
  the synced function and the tick of the call; it answers with its result and the tick of
  its return, or never returns. \<open>flag_Parse\<close> is the status with which
  \<^verbatim>\<open>flag.Parse\<close> exits the process (2 on a flag it rejects, 0 on a request for help),
  \<open>None\<close> when it returns. \<open>signal_at\<close> is the tick at which the goroutine of
  \<^verbatim>\<open>main\<close> has received the interrupt or termination signal and closes the stop
  channel.
\<close>

record env =
  flag_Parse :: "nat option"
  user_Current :: "error + string"
  path_Join :: "string list \<Rightarrow> string"
  BuildConfigFromFlags :: "string \<Rightarrow> string \<Rightarrow> error + string"
  NewForConfig :: "string \<Rightarrow> error + string"
  nodes_HasSynced :: "nat \<Rightarrow> bool"
  WaitForCacheSync :: "chan \<Rightarrow> (nat \<Rightarrow> bool) \<Rightarrow> nat \<Rightarrow> (bool \<times> nat) option"
  signal_at :: "nat option"

text \<open>Lines 54 to 65. The result is \<open>None\<close> when \<^verbatim>\<open>Run\<close> never returns. No statement
  of \<^verbatim>\<open>Run\<close> panics, so the deferred \<^verbatim>\<open>HandleCrash\<close> has nothing to do.\<close>

definition Run :: "env \<Rightarrow> controller \<Rightarrow> chan \<Rightarrow> world \<Rightarrow> (error option \<times> world) option" where
  "Run e c stopCh w =
     (let w1 = klog_Info ''Waiting for informer caches to sync'' w in
      case WaitForCacheSync e stopCh (nodesSynced c) (now w1) of
        None \<Rightarrow> None
      | Some (ok, t) \<Rightarrow>
          (let w2 = w1\<lparr>now := t\<rparr> in
           if \<not> ok then Some (Some (Error ''failed to wait for caches to sync''), w2)
           else
             (let w3 = klog_Info ''Controller running'' w2 in
              case chan_recv stopCh w3 of
                None \<Rightarrow> None
              | Some w4 \<Rightarrow> Some (None, w4))))"

subsection \<open>\<^verbatim>\<open>main\<close>\<close>

text \<open>\<^verbatim>\<open>klog.Fatalf\<close> logs the message and exits with status 255.\<close>

definition klog_Fatalf :: "string \<Rightarrow> string list \<Rightarrow> world \<Rightarrow> nat \<times> world" where
  "klog_Fatalf fmt args w = (255, klog_Info (Sprintf fmt args) w)"

text \<open>The factory's node informer when the factory is new: nothing has been called on it.\<close>

definition NewSharedInformerFactory :: "env \<Rightarrow> string \<Rightarrow> nat \<Rightarrow> NodeInformer" where
  "NewSharedInformerFactory e clientset resync = \<lparr>calls = [], HasSynced = nodes_HasSynced e\<rparr>"

text \<open>
  Lines 68 to 102: \<^verbatim>\<open>main\<close> up to and including the start of the informer. The left
  result is an exit (status and state); the right one is what \<^verbatim>\<open>main\<close> holds when it
  goes on to \<^verbatim>\<open>Run\<close>. The configuration
  and the client set are opaque to the program and stand as strings.
\<close>

definition main_start :: "env \<Rightarrow> world \<Rightarrow> (nat \<times> world) + (controller \<times> chan \<times> NodeInformer \<times> world)" where
  "main_start e w =
     (case flag_Parse e of
        Some status \<Rightarrow> Inl (status, w)
      | None \<Rightarrow>
     (case user_Current e of
        Inl err \<Rightarrow> Inl (klog_Fatalf ''Error loading user: %s'' [message err] w)
      | Inr HomeDir \<Rightarrow>
          (let kubeconfig = path_Join e [HomeDir, ''.kube'', ''config''] in
           case BuildConfigFromFlags e [] kubeconfig of
             Inl err \<Rightarrow> Inl (klog_Fatalf ''Error building kubeconfig: %s'' [message err] w)
           | Inr cfg \<Rightarrow>
               (case NewForConfig e cfg of
                  Inl err \<Rightarrow> Inl (klog_Fatalf ''Error building clientset: %s'' [message err] w)
                | Inr clientset \<Rightarrow>
                    (let kubeInformerFactory = NewSharedInformerFactory e clientset 0;
                         (c, nodes_inf) = newController kubeInformerFactory;
                         stopCh = signal_at e;
                         w1 = klog_Info ''Starting informer'' w;
                         nodes_inf' = nodes_inf\<lparr>calls := calls nodes_inf @ [Start stopCh]\<rparr>
                     in Inr (c, stopCh, nodes_inf', w1))))))"

subsection \<open>Sample inputs\<close>

definition node_a_v1 :: Node where
  "node_a_v1 = \<lparr>Name = ''node-a'', ResourceVersion = ''v1''\<rparr>"

definition node_a_v2 :: Node where
  "node_a_v2 = \<lparr>Name = ''node-a'', ResourceVersion = ''v2''\<rparr>"

definition w0 :: world where
  "w0 = \<lparr>now = 0, klog_out = []\<rparr>"

text \<open>An environment in which every call succeeds, the sync wait answers true at tick 3
  and the signal arrives at tick 7.\<close>

definition env_ok :: env where
  "env_ok =
     \<lparr>flag_Parse = None,
      user_Current = Inr ''/home/u'',
      path_Join = (\<lambda>ps. ''/home/u/.kube/config''),
      BuildConfigFromFlags = (\<lambda>master path. Inr path),
      NewForConfig = (\<lambda>cfg. Inr cfg),
      nodes_HasSynced = (\<lambda>t. 3 \<le> t),
      WaitForCacheSync = (\<lambda>ch synced t. Some (True, max t 3)),
      signal_at = Some 7\<rparr>"

text \<open>The same, but the sync wait answers false at tick 2.\<close>

definition env_nosync :: env where
  "env_nosync = env_ok\<lparr>WaitForCacheSync := (\<lambda>ch synced t. Some (False, max t 2))\<rparr>"

text \<open>The same as \<open>env_ok\<close>, but the sync wait never returns.\<close>

definition env_hang :: env where
  "env_hang = env_ok\<lparr>WaitForCacheSync := (\<lambda>ch synced t. None)\<rparr>"

text \<open>The controller that \<^verbatim>\<open>newController\<close> builds in that environment.\<close>

definition ctl :: controller where
  "ctl = \<lparr>nodes = Lister, nodesSynced = (\<lambda>t. 3 \<le> t)\<rparr>"

section \<open>Properties\<close>

subsection \<open>The handlers\<close>

lemma assert_Node_not_NodePtr: "\<not> is_NodePtr ob \<Longrightarrow> assert_Node ob = Inl InterfaceConversion"
  by (cases ob) simp_all

text \<open>
  Claim C10. Each of the three handlers casts its payload to a node pointer without checking.
  A payload of any other dynamic type makes the handler panic: the added and the deleted
  handler on their one argument, the updated handler on either of its two. The tombstone that
  a delete may carry is such a payload. A nil node pointer passes the cast and panics at the
  field access.
\<close>

theorem handlers_panic_on_non_node:
  "\<not> is_NodePtr ob \<Longrightarrow>
     newController_AddFunc ob w = Inl InterfaceConversion
   \<and> newController_DeleteFunc ob w = Inl InterfaceConversion
   \<and> newController_UpdateFunc ob new w = Inl InterfaceConversion
   \<and> newController_UpdateFunc (NodePtr p) ob w = Inl InterfaceConversion
   \<and> newController_AddFunc (NodePtr None) w = Inl NilDereference
   \<and> newController_DeleteFunc (NodePtr None) w = Inl NilDereference"
  by (simp add: newController_AddFunc_def newController_DeleteFunc_def
      newController_UpdateFunc_def assert_Node_not_NodePtr)

theorem handlers_panic_on_non_node_witness:
  "\<not> is_NodePtr (DeletedFinalStateUnknown ''node-a'' (NodePtr (Some \<lparr>Name = ''node-a'', ResourceVersion = ''v2''\<rparr>)))
   \<and> newController_DeleteFunc
       (DeletedFinalStateUnknown ''node-a'' (NodePtr (Some \<lparr>Name = ''node-a'', ResourceVersion = ''v2''\<rparr>)))
       \<lparr>now = 0, klog_out = []\<rparr> = Inl InterfaceConversion"
  using handlers_panic_on_non_node
    [of "DeletedFinalStateUnknown ''node-a'' (NodePtr (Some \<lparr>Name = ''node-a'', ResourceVersion = ''v2''\<rparr>))"
        "\<lparr>now = 0, klog_out = []\<rparr>" NilObj None]
  by simp

lemma Sprintf_added:
  "Sprintf ''[node added] resource version: %s'' [v] = ''[node added] resource version: '' @ v"
  by simp

lemma Sprintf_deleted:
  "Sprintf ''[node deleted] resource version: %s'' [v] = ''[node deleted] resource version: '' @ v"
  by simp

lemma Sprintf_updated:
  "Sprintf (''[node updated] old resource version: %s'' @ [tab] @ ''new resource version: %s'') [u, v]
     = ''[node updated] old resource version: '' @ u @ tab # ''new resource version: '' @ v"
  by (simp add: tab_def)

text \<open>
  Claim C8, as amended. A notification whose payload is a node makes its handler log exactly
  one message. The message names the kind of the notification and carries the resource
  version of the node, the old one and then the new one for an update; each version is a
  part of the message. The message is made of the kind and the version alone: the name of
  the node is not used to build it, so nothing is promised about the name. The notification
  lines are not all the program prints: whenever \<^verbatim>\<open>Run\<close> returns, the first thing it has logged
  is the line that announces the wait for the cache sync.
\<close>

theorem handlers_log_kind_and_versions:
  "newController_AddFunc (NodePtr (Some n)) w =
     Inr (w\<lparr>klog_out := klog_out w @ [''[node added] resource version: '' @ ResourceVersion n]\<rparr>)
 \<and> newController_UpdateFunc (NodePtr (Some n1)) (NodePtr (Some n2)) w =
     Inr (w\<lparr>klog_out := klog_out w @
            [''[node updated] old resource version: '' @ ResourceVersion n1
               @ tab # ''new resource version: '' @ ResourceVersion n2]\<rparr>)
 \<and> newController_DeleteFunc (NodePtr (Some n)) w =
     Inr (w\<lparr>klog_out := klog_out w @ [''[node deleted] resource version: '' @ ResourceVersion n]\<rparr>)
 \<and> sublist (ResourceVersion n) (''[node added] resource version: '' @ ResourceVersion n)
 \<and> sublist (ResourceVersion n1)
      (''[node updated] old resource version: '' @ ResourceVersion n1
         @ tab # ''new resource version: '' @ ResourceVersion n2)
 \<and> sublist (ResourceVersion n2)
      (''[node updated] old resource version: '' @ ResourceVersion n1
         @ tab # ''new resource version: '' @ ResourceVersion n2)
 \<and> sublist (ResourceVersion n) (''[node deleted] resource version: '' @ ResourceVersion n)
 \<and> (Run e c stopCh v = Some (r, v') \<longrightarrow>
      take (Suc (length (klog_out v))) (klog_out v')
        = klog_out v @ [''Waiting for informer caches to sync''])"
proof -
  have run: "Run e c stopCh v = Some (r, v') \<longrightarrow>
      take (Suc (length (klog_out v))) (klog_out v')
        = klog_out v @ [''Waiting for informer caches to sync'']"
    by (auto simp: Run_def klog_Info_def chan_recv_def Let_def split: option.splits if_splits)
  have upd2: "sublist (ResourceVersion n2)
      (''[node updated] old resource version: '' @ ResourceVersion n1
         @ tab # ''new resource version: '' @ ResourceVersion n2)"
    using sublist_append_leftI
      [of "ResourceVersion n2"
          "''[node updated] old resource version: '' @ ResourceVersion n1 @ tab # ''new resource version: ''"]
    by simp
  have upd1: "sublist (ResourceVersion n1)
      (''[node updated] old resource version: '' @ ResourceVersion n1
         @ tab # ''new resource version: '' @ ResourceVersion n2)"
    by (rule sublist_appendI)
  have add: "sublist (ResourceVersion n) (''[node added] resource version: '' @ ResourceVersion n)"
    by (rule sublist_append_leftI)
  have del: "sublist (ResourceVersion n) (''[node deleted] resource version: '' @ ResourceVersion n)"
    by (rule sublist_append_leftI)
  have a: "newController_AddFunc (NodePtr (Some n)) w =
     Inr (w\<lparr>klog_out := klog_out w @ [''[node added] resource version: '' @ ResourceVersion n]\<rparr>)"
    unfolding newController_AddFunc_def klog_Infof_def klog_Info_def Sprintf_added by simp
  have d: "newController_DeleteFunc (NodePtr (Some n)) w =
     Inr (w\<lparr>klog_out := klog_out w @ [''[node deleted] resource version: '' @ ResourceVersion n]\<rparr>)"
    unfolding newController_DeleteFunc_def klog_Infof_def klog_Info_def Sprintf_deleted by simp
  have u: "newController_UpdateFunc (NodePtr (Some n1)) (NodePtr (Some n2)) w =
     Inr (w\<lparr>klog_out := klog_out w @
            [''[node updated] old resource version: '' @ ResourceVersion n1
               @ tab # ''new resource version: '' @ ResourceVersion n2]\<rparr>)"
    unfolding newController_UpdateFunc_def klog_Infof_def klog_Info_def Sprintf_updated by simp
  from a u d add upd1 upd2 del run show ?thesis by blast
qed

theorem handlers_log_kind_and_versions_witness:
  "newController_UpdateFunc (NodePtr (Some node_a_v1)) (NodePtr (Some node_a_v2)) w0 =
     Inr \<lparr>now = 0, klog_out =
       [''[node updated] old resource version: v1'' @ tab # ''new resource version: v2'']\<rparr>
 \<and> newController_DeleteFunc (NodePtr (Some node_a_v2)) w0 =
     Inr \<lparr>now = 0, klog_out = [''[node deleted] resource version: v2'']\<rparr>
 \<and> Run env_ok ctl (Some 7) w0 =
     Some (None, \<lparr>now = 7, klog_out = [''Waiting for informer caches to sync'', ''Controller running'']\<rparr>)
 \<and> take (Suc (length (klog_out w0)))
      (klog_out \<lparr>now = 7, klog_out = [''Waiting for informer caches to sync'', ''Controller running'']\<rparr>)
     = klog_out w0 @ [''Waiting for informer caches to sync'']"
proof -
  have r: "Run env_ok ctl (Some 7) w0 =
     Some (None, \<lparr>now = 7, klog_out = [''Waiting for informer caches to sync'', ''Controller running'']\<rparr>)"
    by (simp add: Run_def klog_Info_def chan_recv_def env_ok_def w0_def Let_def)
  from r handlers_log_kind_and_versions
      [of node_a_v2 w0 node_a_v1 node_a_v2 env_ok ctl "Some 7" w0 None
          "\<lparr>now = 7, klog_out = [''Waiting for informer caches to sync'', ''Controller running'']\<rparr>"]
  show ?thesis
    by (simp add: node_a_v1_def node_a_v2_def w0_def)
qed

text \<open>
  Claim C8 as the spec states it fails twice. The added handler, given the node named
  \<^verbatim>\<open>node-a\<close> at version \<^verbatim>\<open>v1\<close>, logs one message, and the name is no part of
  it. And \<^verbatim>\<open>main\<close> logs a message of its own before it has started the informer,
  when no notification can have been dispatched yet: the notification lines are not the
  only output.
\<close>

theorem log_line_lacks_identity:
  "newController_AddFunc (NodePtr (Some node_a_v1)) w0 =
     Inr \<lparr>now = 0, klog_out = [''[node added] resource version: v1'']\<rparr>
 \<and> Name node_a_v1 = ''node-a''
 \<and> \<not> sublist ''node-a'' ''[node added] resource version: v1''
 \<and> main_start env_ok w0 =
     Inr (ctl, Some 7,
          \<lparr>calls = [AddEventHandler newController_handlers, Start (Some 7)], HasSynced = (\<lambda>t. 3 \<le> t)\<rparr>,
          \<lparr>now = 0, klog_out = [''Starting informer'']\<rparr>)"
proof -
  have a: "newController_AddFunc (NodePtr (Some node_a_v1)) w0 =
     Inr \<lparr>now = 0, klog_out = [''[node added] resource version: v1'']\<rparr>"
    by (simp add: newController_AddFunc_def klog_Infof_def klog_Info_def node_a_v1_def w0_def)
  have b: "Name node_a_v1 = ''node-a''"
    by (simp add: node_a_v1_def)
  have c: "\<not> sublist ''node-a'' ''[node added] resource version: v1''"
    by (simp add: sublist_code)
  have d: "main_start env_ok w0 =
     Inr (ctl, Some 7,
          \<lparr>calls = [AddEventHandler newController_handlers, Start (Some 7)], HasSynced = (\<lambda>t. 3 \<le> t)\<rparr>,
          \<lparr>now = 0, klog_out = [''Starting informer'']\<rparr>)"
    by (simp add: main_start_def newController_def NewSharedInformerFactory_def klog_Info_def
        env_ok_def w0_def ctl_def Let_def)
  from a b c d show ?thesis by blast
qed

subsection \<open>\<^verbatim>\<open>Run\<close>\<close>

text \<open>
  Claim C2. \<^verbatim>\<open>Run\<close> waits for the cache sync before anything else: while the wait does
  not return, neither does \<^verbatim>\<open>Run\<close>. When the wait answers false, \<^verbatim>\<open>Run\<close> returns
  the error at once and has logged nothing but the line that announces the wait, so it never
  was running. When the wait answers true, \<^verbatim>\<open>Run\<close> logs that it is running and
  returns success when the stop channel is closed, at a tick that is not before the closing;
  on a channel that is never closed it does not return. Conversely a success comes only
  from a true answer and a closed channel, and an error only from a false answer.
\<close>

theorem Run_sync_then_stop:
  "(WaitForCacheSync e stopCh (nodesSynced c) (now w) = None \<longrightarrow> Run e c stopCh w = None)
 \<and> (WaitForCacheSync e stopCh (nodesSynced c) (now w) = Some (False, t) \<longrightarrow>
      Run e c stopCh w =
        Some (Some (Error ''failed to wait for caches to sync''),
              \<lparr>now = t, klog_out = klog_out w @ [''Waiting for informer caches to sync'']\<rparr>))
 \<and> (WaitForCacheSync e stopCh (nodesSynced c) (now w) = Some (True, t) \<longrightarrow>
      (stopCh = None \<longrightarrow> Run e c stopCh w = None)
    \<and> (stopCh = Some cl \<longrightarrow>
         Run e c stopCh w =
           Some (None, \<lparr>now = max t cl,
                        klog_out = klog_out w @ [''Waiting for informer caches to sync'',
                                                 ''Controller running'']\<rparr>)))
 \<and> (Run e c stopCh w = Some (None, w') \<longrightarrow>
      (\<exists>cl t'. stopCh = Some cl \<and> cl \<le> now w'
         \<and> WaitForCacheSync e stopCh (nodesSynced c) (now w) = Some (True, t')))
 \<and> (Run e c stopCh w = Some (Some err, w'') \<longrightarrow>
      (\<exists>t'. WaitForCacheSync e stopCh (nodesSynced c) (now w) = Some (False, t'))
       \<and> ''Controller running'' \<notin> set (drop (length (klog_out w)) (klog_out w'')))"
  by (auto simp: Run_def klog_Info_def chan_recv_def Let_def split: option.splits if_splits)

theorem Run_sync_then_stop_witness:
  "Run env_ok ctl (Some 7) w0 =
     Some (None, \<lparr>now = 7, klog_out = [''Waiting for informer caches to sync'', ''Controller running'']\<rparr>)
 \<and> Run env_nosync ctl (Some 7) w0 =
     Some (Some (Error ''failed to wait for caches to sync''),
           \<lparr>now = 2, klog_out = [''Waiting for informer caches to sync'']\<rparr>)
 \<and> Run env_hang ctl (Some 7) w0 = None
 \<and> Run env_ok ctl None w0 = None"
  using
    Run_sync_then_stop [where e = env_ok and stopCh = "Some 7" and c = ctl and w = w0
      and t = 3 and cl = 7
      and w' = "\<lparr>now = 7, klog_out = [''Waiting for informer caches to sync'', ''Controller running'']\<rparr>"
      and err = "Error ''failed to wait for caches to sync''"
      and w'' = "\<lparr>now = 2, klog_out = [''Waiting for informer caches to sync'']\<rparr>"]
    Run_sync_then_stop [where e = env_nosync and stopCh = "Some 7" and c = ctl and w = w0
      and t = 2 and cl = 7
      and w' = "\<lparr>now = 7, klog_out = [''Waiting for informer caches to sync'', ''Controller running'']\<rparr>"
      and err = "Error ''failed to wait for caches to sync''"
      and w'' = "\<lparr>now = 2, klog_out = [''Waiting for informer caches to sync'']\<rparr>"]
    Run_sync_then_stop [where e = env_hang and stopCh = "Some 7" and c = ctl and w = w0
      and t = 3 and cl = 7 and w' = w0 and err = "Error []" and w'' = w0]
    Run_sync_then_stop [where e = env_ok and stopCh = None and c = ctl and w = w0
      and t = 3 and cl = 7 and w' = w0 and err = "Error []" and w'' = w0]
  by (simp add: env_ok_def env_nosync_def env_hang_def w0_def)

subsection \<open>\<^verbatim>\<open>main\<close>\<close>

text \<open>
  Claim C9. Whenever \<^verbatim>\<open>main\<close> gets as far as starting the informer, the calls it has
  made on the informer are, in this order, the registration of the handlers of
  \<^verbatim>\<open>newController\<close> and the start: every registered handler was registered before the
  start, and all three callbacks are set. So an event that the started informer dispatches
  reaches the callback of its kind.
\<close>

theorem handlers_registered_before_Start:
  "main_start e w = Inr (c, stopCh, nodes_inf, w') \<Longrightarrow>
     calls nodes_inf = [AddEventHandler newController_handlers, Start stopCh]
   \<and> handlers_of (calls nodes_inf) = [newController_handlers]
   \<and> before_Start (calls nodes_inf) = handlers_of (calls nodes_inf)
   \<and> started (calls nodes_inf)
   \<and> AddFunc newController_handlers = Some newController_AddFunc
   \<and> UpdateFunc newController_handlers = Some newController_UpdateFunc
   \<and> DeleteFunc newController_handlers = Some newController_DeleteFunc
   \<and> dispatch nodes_inf (Added ob) w'' = newController_AddFunc ob w''
   \<and> dispatch nodes_inf (Updated old new) w'' = newController_UpdateFunc old new w''
   \<and> dispatch nodes_inf (Deleted ob) w'' = newController_DeleteFunc ob w''"
proof -
  assume m: "main_start e w = Inr (c, stopCh, nodes_inf, w')"
  then have cs: "calls nodes_inf = [AddEventHandler newController_handlers, Start stopCh]"
    by (auto simp: main_start_def newController_def NewSharedInformerFactory_def Let_def
        klog_Fatalf_def split: option.splits sum.splits)
  have h: "AddFunc newController_handlers = Some newController_AddFunc"
      "UpdateFunc newController_handlers = Some newController_UpdateFunc"
      "DeleteFunc newController_handlers = Some newController_DeleteFunc"
    by (simp_all add: newController_handlers_def)
  have da: "dispatch nodes_inf (Added ob) w'' = newController_AddFunc ob w''"
    by (simp add: dispatch_def cs h split: sum.splits)
  have du: "dispatch nodes_inf (Updated old new) w'' = newController_UpdateFunc old new w''"
    by (simp add: dispatch_def cs h split: sum.splits)
  have dd: "dispatch nodes_inf (Deleted ob) w'' = newController_DeleteFunc ob w''"
    by (simp add: dispatch_def cs h split: sum.splits)
  from cs h da du dd show ?thesis by simp
qed

theorem handlers_registered_before_Start_witness:
  "main_start env_ok w0 =
     Inr (ctl, Some 7,
          \<lparr>calls = [AddEventHandler newController_handlers, Start (Some 7)], HasSynced = (\<lambda>t. 3 \<le> t)\<rparr>,
          \<lparr>now = 0, klog_out = [''Starting informer'']\<rparr>)
 \<and> dispatch \<lparr>calls = [AddEventHandler newController_handlers, Start (Some 7)], HasSynced = (\<lambda>t. 3 \<le> t)\<rparr>
      (Deleted (NodePtr (Some node_a_v2))) w0
     = newController_DeleteFunc (NodePtr (Some node_a_v2)) w0"
proof -
  have m: "main_start env_ok w0 =
     Inr (ctl, Some 7,
          \<lparr>calls = [AddEventHandler newController_handlers, Start (Some 7)], HasSynced = (\<lambda>t. 3 \<le> t)\<rparr>,
          \<lparr>now = 0, klog_out = [''Starting informer'']\<rparr>)"
    by (simp add: main_start_def newController_def NewSharedInformerFactory_def klog_Info_def
        env_ok_def w0_def ctl_def Let_def)
  from handlers_registered_before_Start [OF m, of "NodePtr (Some node_a_v2)" w0] m
  show ?thesis by simp
qed

end
